theory Spec2Isabelle
  imports Main "HOL-Library.Word"
begin

section \<open>Python values and exceptions\<close>

text \<open>
  The module under study is \<^verbatim>\<open>web3/_utils/module_testing/module_testing_utils.py\<close>.
  Its functions receive untyped positional arguments (\<^verbatim>\<open>*args\<close>) and keyword options
  (\<^verbatim>\<open>**kwargs\<close>), so the model carries a small universe of Python values. On this
  universe HOL equality is Python's \<^verbatim>\<open>==\<close>: \<^verbatim>\<open>None\<close>, integers, text strings, opaque
  objects compared by identity, the timeout value class of the asynchronous HTTP
  client (compared field by field) and dictionaries with string keys (compared as
  mappings, whatever the insertion order). Floats and booleans are left out.
\<close>

type_synonym bytes = "8 word list"

datatype pyval =
    PyNone
  | PyInt int
  | PyStr string
  | PyObj nat
  | PyClientTimeout "int option" "int option" "int option" "int option"
  | PyDict "string \<Rightarrow> pyval option"

type_synonym kwargs = "string \<Rightarrow> pyval option"

text \<open>
  \<^verbatim>\<open>ClientTimeout(10)\<close>: the first field (\<^verbatim>\<open>total\<close>) is given, the fields
  \<^verbatim>\<open>connect\<close>, \<^verbatim>\<open>sock_read\<close> and \<^verbatim>\<open>sock_connect\<close> keep their default \<^verbatim>\<open>None\<close>.
\<close>

definition ClientTimeout :: "int \<Rightarrow> pyval" where
  "ClientTimeout t = PyClientTimeout (Some t) None None None"

text \<open>
  Every way the module's code can stop without returning is a value of \<open>pyerr\<close>:
  a failed \<^verbatim>\<open>assert\<close>, a missing keyword option, a missing positional argument, a
  keyword given twice in a call, the end of an asynchronous iteration, and
  \<^verbatim>\<open>Exception(msg)\<close>. \<open>StopIteration\<close> stands for an instance of that class or of a
  subclass, \<open>RuntimeError\<close> carries its message, and \<open>OtherError\<close> stands for every
  other error of the collaborators (the real transport, the address and hex
  libraries, a failure injected by a test). Assertions are enabled, as they are
  under the test runner.
\<close>

datatype pyerr =
    AssertionError
  | KeyError string
  | IndexError
  | TypeError
  | StopAsyncIteration
  | StopIteration
  | RuntimeError string
  | PyException string
  | OtherError string

text \<open>A parameter declared \<^verbatim>\<open>str = None\<close> holds a string or \<^verbatim>\<open>None\<close>.\<close>

fun str_or_none :: "string option \<Rightarrow> pyval" where
  "str_or_none None = PyNone"
| "str_or_none (Some s) = PyStr s"

text \<open>
  \<^verbatim>\<open>str.upper()\<close> on the ASCII alphabet, which is where the HTTP method names live
  (the parameter is declared \<^verbatim>\<open>Literal["GET", "POST"]\<close>): the twenty-six lower-case
  letters go to their capitals, every other character stays.
\<close>

definition upper_char :: "char \<Rightarrow> char" where
  "upper_char c =
     (case map_of (zip ''abcdefghijklmnopqrstuvwxyz'' ''ABCDEFGHIJKLMNOPQRSTUVWXYZ'') c of
        Some C \<Rightarrow> C
      | None \<Rightarrow> c)"

definition upper :: "string \<Rightarrow> string" where
  "upper s = map upper_char s"

section \<open>The WebSocket message stream double\<close>

text \<open>
  An exception object handed to the stream double. Two things about it matter to
  \<^verbatim>\<open>__anext__\<close>: which exception propagates when the object is raised (\<open>exc\<close>), and
  what its truth value is (\<open>truth\<close>), since the code tests the object with \<^verbatim>\<open>if\<close>.
  The truth value of an object comes from its class's \<^verbatim>\<open>__bool__\<close> or \<^verbatim>\<open>__len__\<close>:
  it is a boolean, or the evaluation itself raises. The exception classes of Python
  and of the libraries define neither method, so their instances are true.
\<close>

record exc_object =
  exc :: pyerr
  truth :: "pyerr + bool"

definition builtin_exception :: "pyerr \<Rightarrow> exc_object" where
  "builtin_exception e = \<lparr> exc = e, truth = Inr True \<rparr>"

text \<open>The truth value of an attribute that holds \<^verbatim>\<open>None\<close> or an exception object.\<close>

fun truth_of :: "exc_object option \<Rightarrow> pyerr + bool" where
  "truth_of None = Inr False"
| "truth_of (Some e) = truth e"

text \<open>
  An exception that leaves the body of a coroutine reaches the awaiting caller as it
  is, except \<^verbatim>\<open>StopIteration\<close>, which Python replaces by
  \<^verbatim>\<open>RuntimeError("coroutine raised StopIteration")\<close>.
\<close>

definition coroutine_raise :: "pyerr \<Rightarrow> pyerr" where
  "coroutine_raise e =
     (if e = StopIteration then RuntimeError ''coroutine raised StopIteration'' else e)"

text \<open>
  \<^verbatim>\<open>class WebSocketMessageStreamMock\<close>: a deque of messages, an optional exception to
  raise, and the class attribute \<^verbatim>\<open>closed = False\<close>.
\<close>

record stream =
  closed :: bool
  messages :: "bytes list"
  raise_exception :: "exc_object option"

text \<open>
  \<^verbatim>\<open>__init__\<close>: \<^verbatim>\<open>self.messages = deque(messages) if messages else deque()\<close>. A
  collection is falsy when it is \<^verbatim>\<open>None\<close> or empty.
\<close>

definition WebSocketMessageStreamMock ::
  "bytes list option \<Rightarrow> exc_object option \<Rightarrow> stream" where
  "WebSocketMessageStreamMock msgs exn =
     \<lparr> closed = False,
       messages = (case msgs of None \<Rightarrow> [] | Some xs \<Rightarrow> if xs \<noteq> [] then xs else []),
       raise_exception = exn \<rparr>"

text \<open>
  \<^verbatim>\<open>__anext__\<close>, a coroutine, awaited to completion: it either raises (\<open>Inl\<close>) or
  returns a message (\<open>Inr\<close>); the second component is the object after the call.
  \<^item> \<^verbatim>\<open>if self.raise_exception:\<close> evaluates the truth value of the attribute, which
    may itself raise;
  \<^item> when it is true, \<^verbatim>\<open>raise self.raise_exception\<close> raises the object (raising
    \<^verbatim>\<open>None\<close> would be a \<^verbatim>\<open>TypeError\<close>, but \<^verbatim>\<open>None\<close> is never true);
  \<^item> when it is false, whether the attribute is \<^verbatim>\<open>None\<close> or a falsy object, the
    deque is served: \<^verbatim>\<open>StopAsyncIteration\<close> when it is empty, else \<^verbatim>\<open>popleft\<close>, which
    removes and returns its head.
\<close>

definition anext :: "stream \<Rightarrow> (pyerr + bytes) \<times> stream" where
  "anext self =
     (case truth_of (raise_exception self) of
        Inl x \<Rightarrow> (Inl (coroutine_raise x), self)
      | Inr b \<Rightarrow>
          if b then
            (case raise_exception self of
               Some e \<Rightarrow> (Inl (coroutine_raise (exc e)), self)
             | None \<Rightarrow> (Inl (coroutine_raise TypeError), self))
          else
            (case messages self of
               [] \<Rightarrow> (Inl (coroutine_raise StopAsyncIteration), self)
             | m # ms \<Rightarrow> (Inr m, self\<lparr>messages := ms\<rparr>)))"

text \<open>\<^verbatim>\<open>send\<close> and \<^verbatim>\<open>close\<close> have the body \<^verbatim>\<open>pass\<close>.\<close>

definition send :: "stream \<Rightarrow> bytes \<Rightarrow> unit \<times> stream" where
  "send self data = ((), self)"

definition close :: "stream \<Rightarrow> unit \<times> stream" where
  "close self = ((), self)"

text \<open>
  A consumer that calls \<^verbatim>\<open>__anext__\<close> \<open>n\<close> times in a row on the same object and
  records each outcome, whether a message or an exception.
\<close>

fun consume :: "nat \<Rightarrow> stream \<Rightarrow> (pyerr + bytes) list \<times> stream" where
  "consume 0 self = ([], self)"
| "consume (Suc n) self =
     (let (r, self') = anext self;
          (rs, self'') = consume n self'
      in (r # rs, self''))"

section \<open>The request interceptors\<close>

text \<open>
  The parameters of \<^verbatim>\<open>mock_offchain_lookup_request_response\<close> and of
  \<^verbatim>\<open>async_mock_offchain_lookup_request_response\<close>, which the nested class and the
  nested function capture (the \<^verbatim>\<open>monkeypatch\<close> fixture apart). Both functions end by
  installing the nested function as the session class's method of that name; the model
  is of the nested function, the interceptor, once installed and called.
\<close>

record rule =
  http_method :: string
  mocked_request_url :: "string option"
  mocked_status_code :: int
  mocked_json_data :: string
  json_data_field :: string
  sender :: "string option"
  calldata :: "string option"

text \<open>The default values of the signature.\<close>

definition default_rule :: rule where
  "default_rule =
     \<lparr> http_method = ''GET'',
       mocked_request_url = None,
       mocked_status_code = 200,
       mocked_json_data = ''0x'',
       json_data_field = ''data'',
       sender = None,
       calldata = None \<rparr>"

text \<open>
  \<^verbatim>\<open>class MockedResponse\<close> has no state of its own: its attribute and its two static
  methods read the captured parameters, so an instance is the closure's parameters.
\<close>

datatype mocked_response = MockedResponse rule

fun status_code :: "mocked_response \<Rightarrow> int" where
  "status_code (MockedResponse R) = mocked_status_code R"

fun json :: "mocked_response \<Rightarrow> (string \<Rightarrow> string option)" where
  "json (MockedResponse R) = [json_data_field R \<mapsto> mocked_json_data R]"

fun raise_for_status :: "mocked_response \<Rightarrow> pyerr + unit" where
  "raise_for_status (MockedResponse R) = Inl (PyException ''called raise_for_status()'')"

text \<open>
  \<^verbatim>\<open>class AsyncMockedResponse\<close>: the attribute is \<^verbatim>\<open>status\<close>, \<^verbatim>\<open>json\<close> is a coroutine
  (modelled by the value it resolves to) and awaiting the object gives the object.
\<close>

datatype async_mocked_response = AsyncMockedResponse rule

fun status :: "async_mocked_response \<Rightarrow> int" where
  "status (AsyncMockedResponse R) = mocked_status_code R"

fun await :: "async_mocked_response \<Rightarrow> async_mocked_response" where
  "await self = self"

fun async_json :: "async_mocked_response \<Rightarrow> (string \<Rightarrow> string option)" where
  "async_json (AsyncMockedResponse R) = [json_data_field R \<mapsto> mocked_json_data R]"

fun async_raise_for_status :: "async_mocked_response \<Rightarrow> pyerr + unit" where
  "async_raise_for_status (AsyncMockedResponse R) =
     Inl (PyException ''called raise_for_status()'')"

text \<open>
  The interceptor returns \<^verbatim>\<open>Union["Response", MockedResponse]\<close>: what the real session
  returned, or the mocked response.
\<close>

datatype ('r, 'm) response = Real 'r | Mocked 'm

text \<open>
  The real-session path is \<^verbatim>\<open>cache_and_return_session\<close> (from \<^verbatim>\<open>web3._utils.request\<close>)
  followed by the session's \<^verbatim>\<open>request\<close> method. Both are parameters of the model. Each
  call the interceptor makes to them is recorded, in order, in a log that the model
  returns beside the outcome.
\<close>

datatype 's call =
    CacheAndReturnSession pyval
  | SessionRequest 's string pyval kwargs

text \<open>
  \<^verbatim>\<open>_mock_specific_request(*args, **kwargs)\<close> of the synchronous variant.
  \<^item> \<^verbatim>\<open>args[1]\<close> raises \<^verbatim>\<open>IndexError\<close> on fewer than two positional arguments;
  \<^item> \<^verbatim>\<open>kwargs["timeout"]\<close> and \<^verbatim>\<open>kwargs["data"]\<close> raise \<^verbatim>\<open>KeyError\<close> on a missing key;
  \<^item> the call \<^verbatim>\<open>session.request(method=..., url=..., **kwargs)\<close> raises \<^verbatim>\<open>TypeError\<close>
    before entering \<^verbatim>\<open>request\<close> when \<^verbatim>\<open>kwargs\<close> itself has a key \<^verbatim>\<open>method\<close> or \<^verbatim>\<open>url\<close>
    (a keyword argument given twice).
\<close>

definition mock_specific_request ::
  "(pyval \<Rightarrow> 's) \<Rightarrow> ('s \<Rightarrow> string \<Rightarrow> pyval \<Rightarrow> kwargs \<Rightarrow> pyerr + 'r) \<Rightarrow> rule \<Rightarrow>
     pyval list \<Rightarrow> kwargs \<Rightarrow> (pyerr + ('r, mocked_response) response) \<times> 's call list" where
  "mock_specific_request cache_and_return_session request R args kwargs =
     (case args of
        self # url_from_args # rest \<Rightarrow>
          if url_from_args = str_or_none (mocked_request_url R) then
            (case kwargs ''timeout'' of
               None \<Rightarrow> (Inl (KeyError ''timeout''), [])
             | Some timeout \<Rightarrow>
                 if timeout \<noteq> PyInt 10 then (Inl AssertionError, [])
                 else if upper (http_method R) = ''POST'' then
                   (case kwargs ''data'' of
                      None \<Rightarrow> (Inl (KeyError ''data''), [])
                    | Some d \<Rightarrow>
                        if d \<noteq> PyDict [''data'' \<mapsto> str_or_none (calldata R),
                                       ''sender'' \<mapsto> str_or_none (sender R)]
                        then (Inl AssertionError, [])
                        else (Inr (Mocked (MockedResponse R)), []))
                 else (Inr (Mocked (MockedResponse R)), []))
          else
            (let session = cache_and_return_session url_from_args in
             if kwargs ''method'' = None \<and> kwargs ''url'' = None
             then
               (map_sum id Real (request session (upper (http_method R)) url_from_args kwargs),
                [CacheAndReturnSession url_from_args,
                 SessionRequest session (upper (http_method R)) url_from_args kwargs])
             else (Inl TypeError, [CacheAndReturnSession url_from_args]))
      | _ \<Rightarrow> (Inl IndexError, []))"

text \<open>
  \<^verbatim>\<open>_mock_specific_request\<close> of the asynchronous variant, run to completion. The
  timeout is compared with \<^verbatim>\<open>ClientTimeout(10)\<close> and the upper-cased method with the
  lower-case literal \<^verbatim>\<open>"post"\<close>, as the source has them.
\<close>

definition async_mock_specific_request ::
  "(pyval \<Rightarrow> 's) \<Rightarrow> ('s \<Rightarrow> string \<Rightarrow> pyval \<Rightarrow> kwargs \<Rightarrow> pyerr + 'r) \<Rightarrow> rule \<Rightarrow>
     pyval list \<Rightarrow> kwargs \<Rightarrow> (pyerr + ('r, async_mocked_response) response) \<times> 's call list" where
  "async_mock_specific_request async_cache_and_return_session request R args kwargs =
     (case args of
        self # url_from_args # rest \<Rightarrow>
          if url_from_args = str_or_none (mocked_request_url R) then
            (case kwargs ''timeout'' of
               None \<Rightarrow> (Inl (KeyError ''timeout''), [])
             | Some timeout \<Rightarrow>
                 if timeout \<noteq> ClientTimeout 10 then (Inl AssertionError, [])
                 else if upper (http_method R) = ''post'' then
                   (case kwargs ''data'' of
                      None \<Rightarrow> (Inl (KeyError ''data''), [])
                    | Some d \<Rightarrow>
                        if d \<noteq> PyDict [''data'' \<mapsto> str_or_none (calldata R),
                                       ''sender'' \<mapsto> str_or_none (sender R)]
                        then (Inl AssertionError, [])
                        else (Inr (Mocked (AsyncMockedResponse R)), []))
                 else (Inr (Mocked (AsyncMockedResponse R)), []))
          else
            (let session = async_cache_and_return_session url_from_args in
             if kwargs ''method'' = None \<and> kwargs ''url'' = None
             then
               (map_sum id Real (request session (upper (http_method R)) url_from_args kwargs),
                [CacheAndReturnSession url_from_args,
                 SessionRequest session (upper (http_method R)) url_from_args kwargs])
             else (Inl TypeError, [CacheAndReturnSession url_from_args]))
      | _ \<Rightarrow> (Inl IndexError, []))"

section \<open>The log assertion\<close>

text \<open>
  Modelled from the spec: the typed dictionaries \<^verbatim>\<open>LogReceipt\<close> and \<^verbatim>\<open>BlockData\<close> are
  declared in \<^verbatim>\<open>web3.types\<close>; the records hold the fields that \<^verbatim>\<open>assert_contains_log\<close>
  reads (block number, block hash, log index, address, transaction index and
  transaction hash of a log record; number and hash of a block).
\<close>

record log_receipt =
  blockNumber :: int
  blockHash :: bytes
  logIndex :: int
  address :: string
  transactionIndex :: int
  transactionHash :: bytes

record block_data =
  number :: int
  hash :: bytes

text \<open>
  \<^verbatim>\<open>assert_contains_log\<close>. \<^verbatim>\<open>is_same_address\<close> (package \<^verbatim>\<open>eth_utils\<close>) and the
  constructor \<^verbatim>\<open>HexBytes\<close> (package \<^verbatim>\<open>hexbytes\<close>) are parameters; either may raise on
  a malformed argument. The seven \<^verbatim>\<open>assert\<close> statements run in the source's order,
  and the first that fails ends the call.
\<close>

definition assert_contains_log ::
  "(string \<Rightarrow> string \<Rightarrow> pyerr + bool) \<Rightarrow> (string \<Rightarrow> pyerr + bytes) \<Rightarrow>
     log_receipt list \<Rightarrow> block_data \<Rightarrow> string \<Rightarrow> string \<Rightarrow> pyerr + unit" where
  "assert_contains_log is_same_address HexBytes result block_with_txn_with_log
       emitter_contract_address txn_hash_with_log =
     (if length result \<noteq> 1 then Inl AssertionError
      else
        (let log_entry = result ! 0 in
         if blockNumber log_entry \<noteq> number block_with_txn_with_log then Inl AssertionError
         else if blockHash log_entry \<noteq> hash block_with_txn_with_log then Inl AssertionError
         else if logIndex log_entry \<noteq> 0 then Inl AssertionError
         else
           (case is_same_address (address log_entry) emitter_contract_address of
              Inl e \<Rightarrow> Inl e
            | Inr same \<Rightarrow>
                if \<not> same then Inl AssertionError
                else if transactionIndex log_entry \<noteq> 0 then Inl AssertionError
                else
                  (case HexBytes txn_hash_with_log of
                     Inl e \<Rightarrow> Inl e
                   | Inr h \<Rightarrow>
                       if transactionHash log_entry \<noteq> h then Inl AssertionError
                       else Inr ()))))"

section \<open>Stub collaborators for the worked examples\<close>

text \<open>
  A stub session factory that hands out session number 0 for every URL, a stub
  \<^verbatim>\<open>request\<close> that answers every call with the text \<open>''real''\<close>, a stub address
  comparison that ignores letter case, and a stub \<^verbatim>\<open>HexBytes\<close> that reads a text as
  its character codes.
\<close>

definition stub_session :: "pyval \<Rightarrow> nat" where
  "stub_session url = 0"

definition stub_request :: "nat \<Rightarrow> string \<Rightarrow> pyval \<Rightarrow> kwargs \<Rightarrow> pyerr + string" where
  "stub_request session method url kw = Inr ''real''"

definition stub_is_same_address :: "string \<Rightarrow> string \<Rightarrow> pyerr + bool" where
  "stub_is_same_address a b = Inr (upper a = upper b)"

definition stub_HexBytes :: "string \<Rightarrow> pyerr + bytes" where
  "stub_HexBytes s = Inr (map (\<lambda>c. of_nat (of_char c)) s)"

text \<open>
  Example parameters: a GET rule and a POST rule for the URL
  \<^verbatim>\<open>https://mocked.example\<close>, the defaults elsewhere; a log record of block 10 and
  that block.
\<close>

definition example_rule :: rule where
  "example_rule = default_rule\<lparr>mocked_request_url := Some ''https://mocked.example''\<rparr>"

definition example_post_rule :: rule where
  "example_post_rule =
     default_rule\<lparr>http_method := ''POST'', mocked_request_url := Some ''https://mocked.example'',
       sender := Some ''0xSender'', calldata := Some ''0xCalldata''\<rparr>"

definition example_log :: log_receipt where
  "example_log =
     \<lparr> blockNumber = 10, blockHash = [171, 205], logIndex = 0, address = ''0xabCD'',
       transactionIndex = 0, transactionHash = [48, 120, 49, 102] \<rparr>"

definition example_block :: block_data where
  "example_block = \<lparr> number = 10, hash = [171, 205] \<rparr>"

section \<open>Properties of the stream double\<close>

text \<open>
  With no exception set, the first \<open>length (messages self)\<close> calls return the queued
  messages from the head on, every later call raises \<^verbatim>\<open>StopAsyncIteration\<close>, and the
  deque ends up empty.
\<close>

lemma consume_open:
  "raise_exception self = None \<Longrightarrow>
   consume (length (messages self) + k) self =
     (map Inr (messages self) @ replicate k (Inl StopAsyncIteration), self\<lparr>messages := []\<rparr>)"
proof (induction "messages self" arbitrary: self)
  case Nil
  then show ?case
    by (induction k) (simp_all add: anext_def coroutine_raise_def)
next
  case (Cons m ms)
  from Cons.hyps(2) have ms: "messages self = m # ms" by simp
  have step: "anext self = (Inr m, self\<lparr>messages := ms\<rparr>)"
    using Cons.prems ms by (simp add: anext_def)
  have "consume (length ms + k) (self\<lparr>messages := ms\<rparr>) =
      (map Inr ms @ replicate k (Inl StopAsyncIteration), self\<lparr>messages := []\<rparr>)"
    using Cons.hyps(1) [of "self\<lparr>messages := ms\<rparr>"] Cons.prems by simp
  then show ?case using step ms by simp
qed

text \<open>
  With a true exception object set, every call raises what raising that object
  propagates out of the coroutine, and the object stays as it was.
\<close>

lemma anext_true_exception:
  "raise_exception self = Some E \<Longrightarrow> truth E = Inr True \<Longrightarrow>
   anext self = (Inl (coroutine_raise (exc E)), self)"
  by (simp add: anext_def)

lemma consume_failing:
  "raise_exception self = Some E \<Longrightarrow> truth E = Inr True \<Longrightarrow>
   consume k self = (replicate k (Inl (coroutine_raise (exc E))), self)"
  by (induction k) (simp_all add: anext_true_exception)

text \<open>A call that raises, whatever it raises, leaves the object as it was.\<close>

lemma anext_raise_keeps_state: "fst (anext self) = Inl e \<Longrightarrow> snd (anext self) = self"
  by (auto simp: anext_def split: sum.splits option.splits list.splits if_splits)

lemma init_with_messages:
  "WebSocketMessageStreamMock (Some msgs) exn =
     \<lparr> closed = False, messages = msgs, raise_exception = exn \<rparr>"
  by (cases msgs) (simp_all add: WebSocketMessageStreamMock_def)

text \<open>
  C5. A stream double built from the message list \<open>msgs\<close> and no exception answers
  the first \<open>length msgs\<close> calls of \<^verbatim>\<open>__anext__\<close> with the messages in the order they
  were supplied, and each of the \<open>k\<close> calls after that (for any \<open>k\<close>) with
  \<^verbatim>\<open>StopAsyncIteration\<close>; the object is then empty, open and without exception.
\<close>

theorem stream_fifo_then_end:
  "consume (length msgs + k) (WebSocketMessageStreamMock (Some msgs) None) =
     (map Inr msgs @ replicate k (Inl StopAsyncIteration),
      \<lparr> closed = False, messages = [], raise_exception = None \<rparr>)"
  using consume_open [of "\<lparr> closed = False, messages = msgs, raise_exception = None \<rparr>" k]
  by (simp add: init_with_messages)

text \<open>The messages \<^verbatim>\<open>b"a"\<close> and \<^verbatim>\<open>b"b"\<close>, consumed four times.\<close>

theorem stream_fifo_then_end_witness:
  "consume 4 (WebSocketMessageStreamMock (Some [[97], [98]]) None) =
     ([Inr [97], Inr [98], Inl StopAsyncIteration, Inl StopAsyncIteration],
      \<lparr> closed = False, messages = [], raise_exception = None \<rparr>)"
proof -
  have n: "length [[97 :: 8 word], [98]] + 2 = 4"
    by simp
  have r: "map Inr [[97 :: 8 word], [98]] @ replicate 2 (Inl StopAsyncIteration) =
      [Inr [97], Inr [98], Inl StopAsyncIteration, Inl StopAsyncIteration :: pyerr + bytes]"
    by (simp add: numeral_2_eq_2)
  show ?thesis
    using stream_fifo_then_end [of "[[97], [98]]" 2] unfolding n r .
qed

text \<open>
  C6, as the claim states it, fails for two kinds of injected exception object.
  An object whose truth value is false does not pass \<^verbatim>\<open>if self.raise_exception:\<close>, so
  the deque is served: the double built with the message \<^verbatim>\<open>b"a"\<close> and such an object
  returns \<^verbatim>\<open>b"a"\<close> and then raises \<^verbatim>\<open>StopAsyncIteration\<close>, never the object. And a
  \<^verbatim>\<open>StopIteration\<close> raised in the coroutine reaches the caller as \<^verbatim>\<open>RuntimeError\<close>.
\<close>

theorem falsy_or_stop_iteration_not_raised:
  "consume 3 (WebSocketMessageStreamMock (Some [[97]])
        (Some \<lparr> exc = OtherError ''Falsy'', truth = Inr False \<rparr>)) =
     ([Inr [97], Inl StopAsyncIteration, Inl StopAsyncIteration],
      \<lparr> closed = False, messages = [],
        raise_exception = Some \<lparr> exc = OtherError ''Falsy'', truth = Inr False \<rparr> \<rparr>)
   \<and> anext (WebSocketMessageStreamMock (Some [[97]]) (Some (builtin_exception StopIteration))) =
     (Inl (RuntimeError ''coroutine raised StopIteration''),
      WebSocketMessageStreamMock (Some [[97]]) (Some (builtin_exception StopIteration)))"
  by (simp add: init_with_messages anext_def coroutine_raise_def builtin_exception_def
      numeral_3_eq_3)

text \<open>
  C6, amended. A stream double built with an exception object \<open>E\<close> whose truth value
  is true (as it is for the exception classes of Python and of the libraries) and
  which is not a \<^verbatim>\<open>StopIteration\<close> raises \<open>E\<close> on each of any number \<open>k\<close> of successive
  \<^verbatim>\<open>__anext__\<close> calls, whatever messages (none, an empty collection or a list) it was
  built with, and is afterwards the object it was at construction.
\<close>

theorem injected_failure_every_call:
  "truth E = Inr True \<and> exc E \<noteq> StopIteration \<longrightarrow>
     consume k (WebSocketMessageStreamMock msgs (Some E)) =
       (replicate k (Inl (exc E)), WebSocketMessageStreamMock msgs (Some E))"
proof
  assume h: "truth E = Inr True \<and> exc E \<noteq> StopIteration"
  have "raise_exception (WebSocketMessageStreamMock msgs (Some E)) = Some E"
    by (simp add: WebSocketMessageStreamMock_def)
  with h have "consume k (WebSocketMessageStreamMock msgs (Some E)) =
      (replicate k (Inl (coroutine_raise (exc E))), WebSocketMessageStreamMock msgs (Some E))"
    by (simp add: consume_failing)
  with h show "consume k (WebSocketMessageStreamMock msgs (Some E)) =
      (replicate k (Inl (exc E)), WebSocketMessageStreamMock msgs (Some E))"
    by (simp add: coroutine_raise_def)
qed

theorem injected_failure_every_call_witness:
  "fst (consume 3 (WebSocketMessageStreamMock (Some [[97], [98]])
          (Some (builtin_exception (OtherError ''ConnectionClosed''))))) =
     [Inl (OtherError ''ConnectionClosed''), Inl (OtherError ''ConnectionClosed''),
      Inl (OtherError ''ConnectionClosed'')]"
proof -
  have r: "replicate 3 (Inl (OtherError ''ConnectionClosed'') :: pyerr + bytes) =
      [Inl (OtherError ''ConnectionClosed''), Inl (OtherError ''ConnectionClosed''),
       Inl (OtherError ''ConnectionClosed'')]"
    by (simp add: numeral_3_eq_3)
  have e: "truth (builtin_exception (OtherError ''ConnectionClosed'')) = Inr True"
    "exc (builtin_exception (OtherError ''ConnectionClosed'')) = OtherError ''ConnectionClosed''"
    by (simp_all add: builtin_exception_def)
  show ?thesis
    using injected_failure_every_call
      [of "builtin_exception (OtherError ''ConnectionClosed'')" 3 "Some [[97], [98]]"]
    unfolding e r by simp
qed

text \<open>
  C10. When the exception attribute of a stream double is set to \<open>E\<close>, a call of
  \<^verbatim>\<open>__anext__\<close> that raises \<open>E\<close> leaves the object as it was: the same messages in the
  same order, the same exception, the same \<^verbatim>\<open>closed\<close> flag. And the call does raise
  \<open>E\<close>, with the object left as it was, whenever the truth value of \<open>E\<close> is true and
  \<open>E\<close> is not a \<^verbatim>\<open>StopIteration\<close>.
\<close>

theorem failing_anext_keeps_state:
  "(raise_exception self = Some E \<and> fst (anext self) = Inl (exc E) \<longrightarrow>
      snd (anext self) = self)
   \<and> (raise_exception self = Some E \<and> truth E = Inr True \<and> exc E \<noteq> StopIteration \<longrightarrow>
      anext self = (Inl (exc E), self))"
  by (auto simp: anext_raise_keeps_state anext_true_exception coroutine_raise_def)

theorem failing_anext_keeps_state_witness:
  "anext \<lparr> closed = False, messages = [[97], [98]],
           raise_exception = Some (builtin_exception (OtherError ''boom'')) \<rparr> =
     (Inl (OtherError ''boom''),
      \<lparr> closed = False, messages = [[97], [98]],
        raise_exception = Some (builtin_exception (OtherError ''boom'')) \<rparr>)
   \<and> snd (anext \<lparr> closed = False, messages = [[97], [98]],
           raise_exception = Some (builtin_exception (OtherError ''boom'')) \<rparr>) =
     \<lparr> closed = False, messages = [[97], [98]],
       raise_exception = Some (builtin_exception (OtherError ''boom'')) \<rparr>"
proof -
  have e: "truth (builtin_exception (OtherError ''boom'')) = Inr True"
    "exc (builtin_exception (OtherError ''boom'')) = OtherError ''boom''"
    by (simp_all add: builtin_exception_def)
  have a: "anext \<lparr> closed = False, messages = [[97], [98]],
           raise_exception = Some (builtin_exception (OtherError ''boom'')) \<rparr> =
     (Inl (OtherError ''boom''),
      \<lparr> closed = False, messages = [[97], [98]],
        raise_exception = Some (builtin_exception (OtherError ''boom'')) \<rparr>)"
    using failing_anext_keeps_state
      [of "\<lparr> closed = False, messages = [[97], [98]],
             raise_exception = Some (builtin_exception (OtherError ''boom'')) \<rparr>"
          "builtin_exception (OtherError ''boom'')"]
    unfolding e by simp
  have "fst (anext \<lparr> closed = False, messages = [[97], [98]],
           raise_exception = Some (builtin_exception (OtherError ''boom'')) \<rparr>) =
      Inl (exc (builtin_exception (OtherError ''boom'')))"
    unfolding e a by simp
  then have b: "snd (anext \<lparr> closed = False, messages = [[97], [98]],
           raise_exception = Some (builtin_exception (OtherError ''boom'')) \<rparr>) =
     \<lparr> closed = False, messages = [[97], [98]],
       raise_exception = Some (builtin_exception (OtherError ''boom'')) \<rparr>"
    using failing_anext_keeps_state
      [of "\<lparr> closed = False, messages = [[97], [98]],
             raise_exception = Some (builtin_exception (OtherError ''boom'')) \<rparr>"
          "builtin_exception (OtherError ''boom'')"]
    by simp
  from a b show ?thesis by (rule conjI)
qed

section \<open>Properties of the request interceptors\<close>

text \<open>
  Upper-casing never produces the lower-case text \<open>''post''\<close>: no character is mapped
  to the letter p.
\<close>

lemma upper_ne_post: "upper s \<noteq> ''post''"
proof
  assume "upper s = ''post''"
  then obtain c where "upper_char c = CHR ''p''"
    by (cases s) (auto simp: upper_def)
  then show False
    by (simp add: upper_char_def split: if_splits)
qed

lemma upper_GET: "upper ''GET'' = ''GET''"
  by (simp add: upper_def upper_char_def)

lemma upper_POST: "upper ''POST'' = ''POST''"
  by (simp add: upper_def upper_char_def)

lemma map_sum_Real_not_Mocked: "map_sum id Real x \<noteq> Inr (Mocked m)"
  by (cases x) simp_all

lemma dict_differs: "m k \<noteq> m' k \<Longrightarrow> PyDict m \<noteq> PyDict m'"
  by auto

text \<open>A mocked response that an interceptor returns is the one of its own rule.\<close>

lemma sync_mocked_is_rule:
  "mock_specific_request session_for request R args kwargs = (Inr (Mocked resp), calls) \<Longrightarrow>
   resp = MockedResponse R"
  by (auto simp: mock_specific_request_def Let_def map_sum_Real_not_Mocked
      split: list.splits option.splits if_splits)

lemma async_mocked_is_rule:
  "async_mock_specific_request session_for request R args kwargs = (Inr (Mocked resp), calls) \<Longrightarrow>
   resp = AsyncMockedResponse R"
  by (auto simp: async_mock_specific_request_def Let_def map_sum_Real_not_Mocked
      split: list.splits option.splits if_splits)

text \<open>
  C1, as the claim states it, fails: the timeout is asserted inside the branch for the
  mocked URL only. A call for another URL with the timeout 5 is forwarded to the real
  session and returns its answer, in the synchronous and in the asynchronous variant.
\<close>

theorem unmatched_url_skips_timeout_check:
  "mock_specific_request stub_session stub_request example_rule
       [PyObj 0, PyStr ''https://other.example''] [''timeout'' \<mapsto> PyInt 5] =
     (Inr (Real ''real''),
      [CacheAndReturnSession (PyStr ''https://other.example''),
       SessionRequest 0 ''GET'' (PyStr ''https://other.example'') [''timeout'' \<mapsto> PyInt 5]])
   \<and> async_mock_specific_request stub_session stub_request example_rule
       [PyObj 0, PyStr ''https://other.example''] [''timeout'' \<mapsto> ClientTimeout 5] =
     (Inr (Real ''real''),
      [CacheAndReturnSession (PyStr ''https://other.example''),
       SessionRequest 0 ''GET'' (PyStr ''https://other.example'')
         [''timeout'' \<mapsto> ClientTimeout 5]])"
  by (simp add: mock_specific_request_def async_mock_specific_request_def example_rule_def
      default_rule_def stub_session_def stub_request_def upper_GET)

text \<open>
  C1, amended. For every call whose URL equals the mocked URL and whose options carry
  a timeout different from the expected one (the integer 10 for the synchronous
  interceptor, \<^verbatim>\<open>ClientTimeout(10)\<close> for the asynchronous one), the interceptor raises
  \<^verbatim>\<open>AssertionError\<close>, returns no response and makes no call to the real session.
\<close>

theorem matched_url_wrong_timeout_fails:
  "(kwargs ''timeout'' = Some t \<and> t \<noteq> PyInt 10 \<longrightarrow>
      mock_specific_request session_for request R
          (self # str_or_none (mocked_request_url R) # rest) kwargs =
        (Inl AssertionError, []))
   \<and> (kwargs' ''timeout'' = Some t' \<and> t' \<noteq> ClientTimeout 10 \<longrightarrow>
      async_mock_specific_request session_for' request' R'
          (self' # str_or_none (mocked_request_url R') # rest') kwargs' =
        (Inl AssertionError, []))"
  by (simp add: mock_specific_request_def async_mock_specific_request_def)

text \<open>
  The timeout 5 given to the synchronous interceptor, and the raw integer 10 given to
  the asynchronous one, which expects the timeout object.
\<close>

theorem matched_url_wrong_timeout_fails_witness:
  "mock_specific_request stub_session stub_request example_rule
       [PyObj 0, PyStr ''https://mocked.example''] [''timeout'' \<mapsto> PyInt 5] =
     (Inl AssertionError, [])
   \<and> async_mock_specific_request stub_session stub_request example_rule
       [PyObj 0, PyStr ''https://mocked.example''] [''timeout'' \<mapsto> PyInt 10] =
     (Inl AssertionError, [])"
  using matched_url_wrong_timeout_fails
    [of "[''timeout'' \<mapsto> PyInt 5]" "PyInt 5" stub_session stub_request example_rule
        "PyObj 0" "[]"
        "[''timeout'' \<mapsto> PyInt 10]" "PyInt 10" stub_session stub_request example_rule
        "PyObj 0" "[]"]
  by (simp add: example_rule_def default_rule_def ClientTimeout_def)

text \<open>
  C2. The claim asks the asynchronous interceptor of a POST rule to raise
  \<^verbatim>\<open>AssertionError\<close> when the request body is not \<^verbatim>\<open>{"data": calldata, "sender": sender}\<close>.
  The source guards that assertion with \<^verbatim>\<open>http_method.upper() == "post"\<close>, which no
  method name satisfies, so the body is never looked at: on a body with the wrong
  calldata the asynchronous interceptor returns the mocked response, where the
  synchronous one, on the same call with its own timeout, raises \<^verbatim>\<open>AssertionError\<close>.
\<close>

theorem async_post_body_not_validated:
  "async_mock_specific_request stub_session stub_request example_post_rule
       [PyObj 0, PyStr ''https://mocked.example'']
       [''timeout'' \<mapsto> ClientTimeout 10,
        ''data'' \<mapsto> PyDict [''data'' \<mapsto> PyStr ''0xOther'', ''sender'' \<mapsto> PyStr ''0xSender'']] =
     (Inr (Mocked (AsyncMockedResponse example_post_rule)), [])
   \<and> mock_specific_request stub_session stub_request example_post_rule
       [PyObj 0, PyStr ''https://mocked.example'']
       [''timeout'' \<mapsto> PyInt 10,
        ''data'' \<mapsto> PyDict [''data'' \<mapsto> PyStr ''0xOther'', ''sender'' \<mapsto> PyStr ''0xSender'']] =
     (Inl AssertionError, [])"
proof -
  have d: "PyDict [''data'' \<mapsto> PyStr ''0xOther'', ''sender'' \<mapsto> PyStr ''0xSender''] \<noteq>
      PyDict [''data'' \<mapsto> PyStr ''0xCalldata'', ''sender'' \<mapsto> PyStr ''0xSender'']"
    by (rule dict_differs [where k = "''data''"]) simp
  show ?thesis
    using d
    by (simp add: async_mock_specific_request_def mock_specific_request_def example_post_rule_def
        default_rule_def upper_POST upper_ne_post)
qed

text \<open>
  C3, as the claim states it, fails on options that themselves hold a key \<^verbatim>\<open>url\<close> (or
  \<^verbatim>\<open>method\<close>): the forwarding call names that keyword twice, Python raises
  \<^verbatim>\<open>TypeError\<close> before the session's \<^verbatim>\<open>request\<close> is entered, and the answer of the
  real session is never returned.
\<close>

theorem duplicate_keyword_not_forwarded:
  "mock_specific_request stub_session stub_request example_rule
       [PyObj 0, PyStr ''https://other.example'']
       [''timeout'' \<mapsto> PyInt 10, ''url'' \<mapsto> PyStr ''https://elsewhere.example''] =
     (Inl TypeError, [CacheAndReturnSession (PyStr ''https://other.example'')])"
  by (simp add: mock_specific_request_def example_rule_def default_rule_def)

text \<open>
  C3, amended. For every call whose URL differs from the mocked URL and whose options
  hold neither a key \<^verbatim>\<open>method\<close> nor a key \<^verbatim>\<open>url\<close>, the interceptor asks the session
  factory for the session of that URL, calls that session's \<^verbatim>\<open>request\<close> once with the
  upper-cased method, the same URL and the same options, and returns what that call
  returns (or raises what it raises). This holds for the synchronous and for the
  asynchronous interceptor, whatever the timeout.
\<close>

theorem unmatched_url_pass_through:
  "(url \<noteq> str_or_none (mocked_request_url R) \<and> kwargs ''method'' = None \<and>
        kwargs ''url'' = None \<longrightarrow>
      mock_specific_request session_for request R (self # url # rest) kwargs =
        (map_sum id Real (request (session_for url) (upper (http_method R)) url kwargs),
         [CacheAndReturnSession url,
          SessionRequest (session_for url) (upper (http_method R)) url kwargs]))
   \<and> (url' \<noteq> str_or_none (mocked_request_url R') \<and> kwargs' ''method'' = None \<and>
        kwargs' ''url'' = None \<longrightarrow>
      async_mock_specific_request session_for' request' R' (self' # url' # rest') kwargs' =
        (map_sum id Real (request' (session_for' url') (upper (http_method R')) url' kwargs'),
         [CacheAndReturnSession url',
          SessionRequest (session_for' url') (upper (http_method R')) url' kwargs']))"
  by (simp add: mock_specific_request_def async_mock_specific_request_def Let_def)

theorem unmatched_url_pass_through_witness:
  "mock_specific_request stub_session stub_request example_post_rule
       [PyObj 0, PyStr ''https://other.example'']
       [''timeout'' \<mapsto> PyInt 10] =
     (Inr (Real ''real''),
      [CacheAndReturnSession (PyStr ''https://other.example''),
       SessionRequest 0 ''POST'' (PyStr ''https://other.example'') [''timeout'' \<mapsto> PyInt 10]])
   \<and> async_mock_specific_request stub_session stub_request example_post_rule
       [PyObj 0, PyStr ''https://other.example'']
       [''timeout'' \<mapsto> ClientTimeout 10] =
     (Inr (Real ''real''),
      [CacheAndReturnSession (PyStr ''https://other.example''),
       SessionRequest 0 ''POST'' (PyStr ''https://other.example'')
         [''timeout'' \<mapsto> ClientTimeout 10]])"
  using unmatched_url_pass_through
    [of "PyStr ''https://other.example''" example_post_rule "[''timeout'' \<mapsto> PyInt 10]"
        stub_session stub_request "PyObj 0" "[]"
        "PyStr ''https://other.example''" example_post_rule "[''timeout'' \<mapsto> ClientTimeout 10]"
        stub_session stub_request "PyObj 0" "[]"]
  by (simp add: example_post_rule_def default_rule_def stub_session_def stub_request_def upper_POST)

text \<open>
  C4. For every call whose URL equals the mocked URL, whose timeout is the expected
  one and whose body, when the method is POST, is \<^verbatim>\<open>{"data": calldata, "sender": sender}\<close>,
  the interceptor makes no call to the session factory or to a session (the log of
  calls is empty) and returns the mocked response of its rule. This holds for the
  synchronous and for the asynchronous interceptor.
\<close>

theorem matched_url_never_reaches_real_session:
  "(kwargs ''timeout'' = Some (PyInt 10) \<and>
      (upper (http_method R) = ''POST'' \<longrightarrow>
         kwargs ''data'' = Some (PyDict [''data'' \<mapsto> str_or_none (calldata R),
                                        ''sender'' \<mapsto> str_or_none (sender R)])) \<longrightarrow>
      mock_specific_request session_for request R
          (self # str_or_none (mocked_request_url R) # rest) kwargs =
        (Inr (Mocked (MockedResponse R)), []))
   \<and> (kwargs' ''timeout'' = Some (ClientTimeout 10) \<and>
      (upper (http_method R') = ''POST'' \<longrightarrow>
         kwargs' ''data'' = Some (PyDict [''data'' \<mapsto> str_or_none (calldata R'),
                                         ''sender'' \<mapsto> str_or_none (sender R')])) \<longrightarrow>
      async_mock_specific_request session_for' request' R'
          (self' # str_or_none (mocked_request_url R') # rest') kwargs' =
        (Inr (Mocked (AsyncMockedResponse R')), []))"
  by (simp add: mock_specific_request_def async_mock_specific_request_def upper_ne_post)

theorem matched_url_never_reaches_real_session_witness:
  "mock_specific_request stub_session stub_request example_post_rule
       [PyObj 0, PyStr ''https://mocked.example'']
       [''timeout'' \<mapsto> PyInt 10,
        ''data'' \<mapsto> PyDict [''data'' \<mapsto> PyStr ''0xCalldata'', ''sender'' \<mapsto> PyStr ''0xSender'']] =
     (Inr (Mocked (MockedResponse example_post_rule)), [])
   \<and> async_mock_specific_request stub_session stub_request example_post_rule
       [PyObj 0, PyStr ''https://mocked.example'']
       [''timeout'' \<mapsto> ClientTimeout 10,
        ''data'' \<mapsto> PyDict [''data'' \<mapsto> PyStr ''0xCalldata'', ''sender'' \<mapsto> PyStr ''0xSender'']] =
     (Inr (Mocked (AsyncMockedResponse example_post_rule)), [])"
  using matched_url_never_reaches_real_session
    [of "[''timeout'' \<mapsto> PyInt 10,
        ''data'' \<mapsto> PyDict [''data'' \<mapsto> PyStr ''0xCalldata'', ''sender'' \<mapsto> PyStr ''0xSender'']]"
        example_post_rule stub_session stub_request "PyObj 0" "[]"
        "[''timeout'' \<mapsto> ClientTimeout 10,
        ''data'' \<mapsto> PyDict [''data'' \<mapsto> PyStr ''0xCalldata'', ''sender'' \<mapsto> PyStr ''0xSender'']]"
        example_post_rule stub_session stub_request "PyObj 0" "[]"]
  by (simp add: example_post_rule_def default_rule_def)

text \<open>
  C7. Whenever the synchronous or the asynchronous interceptor returns a mocked
  response, \<^verbatim>\<open>json()\<close> of that response is the dictionary with the single entry from
  the configured field name to the configured payload, for every field name and
  payload; with the defaults it is \<^verbatim>\<open>{"data": "0x"}\<close>.
\<close>

theorem synthetic_json_is_configured_entry:
  "(mock_specific_request session_for request R args kwargs = (Inr (Mocked resp), calls) \<longrightarrow>
      json resp = [json_data_field R \<mapsto> mocked_json_data R])
   \<and> (async_mock_specific_request session_for' request' R' args' kwargs' =
        (Inr (Mocked resp'), calls') \<longrightarrow>
      async_json resp' = [json_data_field R' \<mapsto> mocked_json_data R'])"
  by (auto dest!: sync_mocked_is_rule async_mocked_is_rule)

theorem synthetic_json_is_configured_entry_witness:
  "json (MockedResponse example_rule) = [''data'' \<mapsto> ''0x'']
   \<and> async_json (AsyncMockedResponse example_rule) = [''data'' \<mapsto> ''0x'']"
proof -
  have s: "mock_specific_request stub_session stub_request example_rule
      [PyObj 0, PyStr ''https://mocked.example''] [''timeout'' \<mapsto> PyInt 10] =
      (Inr (Mocked (MockedResponse example_rule)), [])"
    by (simp add: mock_specific_request_def example_rule_def default_rule_def upper_GET)
  have a: "async_mock_specific_request stub_session stub_request example_rule
      [PyObj 0, PyStr ''https://mocked.example''] [''timeout'' \<mapsto> ClientTimeout 10] =
      (Inr (Mocked (AsyncMockedResponse example_rule)), [])"
    by (simp add: async_mock_specific_request_def example_rule_def default_rule_def upper_GET)
  have f: "json_data_field example_rule = ''data''" "mocked_json_data example_rule = ''0x''"
    by (simp_all add: example_rule_def default_rule_def)
  from synthetic_json_is_configured_entry
    [of stub_session stub_request example_rule "[PyObj 0, PyStr ''https://mocked.example'']"
        "[''timeout'' \<mapsto> PyInt 10]" "MockedResponse example_rule" "[]"
        stub_session stub_request example_rule "[PyObj 0, PyStr ''https://mocked.example'']"
        "[''timeout'' \<mapsto> ClientTimeout 10]" "AsyncMockedResponse example_rule" "[]"]
  show ?thesis
    unfolding f using s a by blast
qed

text \<open>
  C9. Whenever the synchronous or the asynchronous interceptor returns a mocked
  response, \<^verbatim>\<open>raise_for_status()\<close> of that response raises
  \<^verbatim>\<open>Exception("called raise_for_status()")\<close>: the operation reads no state and no
  status code, so it does so on every call.
\<close>

theorem synthetic_raise_for_status_always_raises:
  "(mock_specific_request session_for request R args kwargs = (Inr (Mocked resp), calls) \<longrightarrow>
      raise_for_status resp = Inl (PyException ''called raise_for_status()''))
   \<and> (async_mock_specific_request session_for' request' R' args' kwargs' =
        (Inr (Mocked resp'), calls') \<longrightarrow>
      async_raise_for_status resp' = Inl (PyException ''called raise_for_status()''))"
  by (auto dest!: sync_mocked_is_rule async_mocked_is_rule)

text \<open>A rule with the status code 404.\<close>

theorem synthetic_raise_for_status_always_raises_witness:
  "raise_for_status (MockedResponse (example_rule\<lparr>mocked_status_code := 404\<rparr>)) =
     Inl (PyException ''called raise_for_status()'')
   \<and> async_raise_for_status (AsyncMockedResponse (example_rule\<lparr>mocked_status_code := 404\<rparr>)) =
     Inl (PyException ''called raise_for_status()'')"
proof -
  have s: "mock_specific_request stub_session stub_request
      (example_rule\<lparr>mocked_status_code := 404\<rparr>)
      [PyObj 0, PyStr ''https://mocked.example''] [''timeout'' \<mapsto> PyInt 10] =
      (Inr (Mocked (MockedResponse (example_rule\<lparr>mocked_status_code := 404\<rparr>))), [])"
    by (simp add: mock_specific_request_def example_rule_def default_rule_def upper_GET)
  have a: "async_mock_specific_request stub_session stub_request
      (example_rule\<lparr>mocked_status_code := 404\<rparr>)
      [PyObj 0, PyStr ''https://mocked.example''] [''timeout'' \<mapsto> ClientTimeout 10] =
      (Inr (Mocked (AsyncMockedResponse (example_rule\<lparr>mocked_status_code := 404\<rparr>))), [])"
    by (simp add: async_mock_specific_request_def example_rule_def default_rule_def upper_GET)
  from synthetic_raise_for_status_always_raises
    [of stub_session stub_request "example_rule\<lparr>mocked_status_code := 404\<rparr>"
        "[PyObj 0, PyStr ''https://mocked.example'']"
        "[''timeout'' \<mapsto> PyInt 10]"
        "MockedResponse (example_rule\<lparr>mocked_status_code := 404\<rparr>)" "[]"
        stub_session stub_request "example_rule\<lparr>mocked_status_code := 404\<rparr>"
        "[PyObj 0, PyStr ''https://mocked.example'']"
        "[''timeout'' \<mapsto> ClientTimeout 10]"
        "AsyncMockedResponse (example_rule\<lparr>mocked_status_code := 404\<rparr>)" "[]"]
  show ?thesis
    using s a by blast
qed

section \<open>Properties of the log assertion\<close>

lemma stub_HexBytes_example: "stub_HexBytes ''0x1f'' = Inr [48, 120, 49, 102]"
  by (simp add: stub_HexBytes_def)

lemma stub_same_example: "stub_is_same_address ''0xabCD'' ''0xABcd'' = Inr True"
  by (simp add: stub_is_same_address_def upper_def upper_char_def)

text \<open>
  C8. \<^verbatim>\<open>assert_contains_log\<close> returns normally if and only if the result has exactly
  one element, whose block number and block hash are those of the block, whose log
  index and transaction index are 0, whose address \<^verbatim>\<open>is_same_address\<close> finds equal to
  the emitter, and whose transaction hash is the byte sequence that \<^verbatim>\<open>HexBytes\<close> makes
  of the expected transaction hash. In particular it raises \<^verbatim>\<open>AssertionError\<close> on a
  result of length 0 or 2 and on a single element with a nonzero log index.
\<close>

theorem assert_contains_log_iff:
  "(assert_contains_log is_same_address HexBytes result block emitter txn = Inr () \<longleftrightarrow>
      (\<exists>e. result = [e] \<and> blockNumber e = number block \<and> blockHash e = hash block \<and>
           logIndex e = 0 \<and> transactionIndex e = 0 \<and>
           is_same_address (address e) emitter = Inr True \<and>
           HexBytes txn = Inr (transactionHash e)))
   \<and> (length result = 0 \<or> length result = 2 \<longrightarrow>
        assert_contains_log is_same_address HexBytes result block emitter txn =
          Inl AssertionError)
   \<and> (result = [e'] \<and> logIndex e' \<noteq> 0 \<longrightarrow>
        assert_contains_log is_same_address HexBytes result block emitter txn =
          Inl AssertionError)"
proof (intro conjI)
  show "assert_contains_log is_same_address HexBytes result block emitter txn = Inr () \<longleftrightarrow>
      (\<exists>e. result = [e] \<and> blockNumber e = number block \<and> blockHash e = hash block \<and>
           logIndex e = 0 \<and> transactionIndex e = 0 \<and>
           is_same_address (address e) emitter = Inr True \<and>
           HexBytes txn = Inr (transactionHash e))"
  proof (cases result)
    case Nil
    then show ?thesis by (simp add: assert_contains_log_def)
  next
    case (Cons e es)
    show ?thesis
    proof (cases es)
      case Nil
      with Cons show ?thesis
        by (auto simp: assert_contains_log_def Let_def split: sum.splits)
    next
      case (Cons e2 es2)
      with \<open>result = e # es\<close> show ?thesis by (simp add: assert_contains_log_def)
    qed
  qed
next
  show "length result = 0 \<or> length result = 2 \<longrightarrow>
        assert_contains_log is_same_address HexBytes result block emitter txn =
          Inl AssertionError"
    by (auto simp: assert_contains_log_def)
next
  show "result = [e'] \<and> logIndex e' \<noteq> 0 \<longrightarrow>
        assert_contains_log is_same_address HexBytes result block emitter txn =
          Inl AssertionError"
    by (simp add: assert_contains_log_def Let_def)
qed

text \<open>
  A matching record whose address differs from the emitter in letter case only; the
  empty result; the record twice; the record with log index 1.
\<close>

theorem assert_contains_log_iff_witness:
  "assert_contains_log stub_is_same_address stub_HexBytes [example_log] example_block
       ''0xABcd'' ''0x1f'' = Inr ()
   \<and> assert_contains_log stub_is_same_address stub_HexBytes [] example_block
       ''0xABcd'' ''0x1f'' = Inl AssertionError
   \<and> assert_contains_log stub_is_same_address stub_HexBytes [example_log, example_log]
       example_block ''0xABcd'' ''0x1f'' = Inl AssertionError
   \<and> assert_contains_log stub_is_same_address stub_HexBytes [example_log\<lparr>logIndex := 1\<rparr>]
       example_block ''0xABcd'' ''0x1f'' = Inl AssertionError"
proof (intro conjI)
  show "assert_contains_log stub_is_same_address stub_HexBytes [example_log] example_block
       ''0xABcd'' ''0x1f'' = Inr ()"
    using assert_contains_log_iff
      [of stub_is_same_address stub_HexBytes "[example_log]" example_block
          "''0xABcd''" "''0x1f''" example_log]
      stub_HexBytes_example stub_same_example
    by (simp add: example_log_def example_block_def)
next
  show "assert_contains_log stub_is_same_address stub_HexBytes [] example_block
       ''0xABcd'' ''0x1f'' = Inl AssertionError"
    using assert_contains_log_iff
      [of stub_is_same_address stub_HexBytes "[]" example_block
          "''0xABcd''" "''0x1f''" example_log]
    by simp
next
  show "assert_contains_log stub_is_same_address stub_HexBytes [example_log, example_log]
       example_block ''0xABcd'' ''0x1f'' = Inl AssertionError"
    using assert_contains_log_iff
      [of stub_is_same_address stub_HexBytes "[example_log, example_log]" example_block
          "''0xABcd''" "''0x1f''" example_log]
    by simp
next
  show "assert_contains_log stub_is_same_address stub_HexBytes [example_log\<lparr>logIndex := 1\<rparr>]
       example_block ''0xABcd'' ''0x1f'' = Inl AssertionError"
    using assert_contains_log_iff
      [of stub_is_same_address stub_HexBytes "[example_log\<lparr>logIndex := 1\<rparr>]" example_block
          "''0xABcd''" "''0x1f''" "example_log\<lparr>logIndex := 1\<rparr>"]
    by simp
qed

end
